theory Spec2Isabelle
  imports Complex_Main "HOL-Library.Sublist"
begin

section \<open>Python values\<close>

text \<open>
  The development follows \<^verbatim>\<open>data-enhancement/data_enhancer.py\<close>.

  A Python \<^verbatim>\<open>str\<close> is a sequence of Unicode code points; the keywords of the classifier
  are outside ASCII, so a string is a list of code points here.

  A Python \<^verbatim>\<open>float\<close> is a double. Where the code truncates a computed float to an
  integer (\<^verbatim>\<open>estimate_employees\<close>), the rounding of every operation decides the result,
  and the operations are modelled with it (\<open>to_double\<close> below), on finite values,
  infinities and NaN. Elsewhere (\<^verbatim>\<open>estimate_profit\<close>, \<^verbatim>\<open>estimate_financial_ratios\<close>) a float
  is idealised as a real number and the arithmetic is exact.
\<close>

type_synonym pystr = "nat list"

datatype error = TypeError | ZeroDivisionError | OverflowError | ValueError

text \<open>
  A cell of the data frame as \<^verbatim>\<open>pandas.read_csv\<close> delivers it: \<open>NaN\<close> for an empty field,
  a number, or a string.
\<close>

datatype cell = NaN | Num real | Str pystr

text \<open>\<^verbatim>\<open>k in s\<close> on strings: \<open>k\<close> occurs in \<open>s\<close> as a contiguous block.\<close>

fun py_in :: "'a list \<Rightarrow> 'a list \<Rightarrow> bool" where
  "py_in k [] = (k = [])"
| "py_in k (c # cs) = (prefix k (c # cs) \<or> py_in k cs)"

subsection \<open>Doubles\<close>

text \<open>
  Rounding to the nearest integer, a tie to the even neighbour, and rounding of a real
  number to the nearest number with 53 significant bits: \<open>2 powi e\<close> is the distance of
  such numbers in the binade of \<open>x\<close>. The range of the exponent is not modelled. For the
  two operations of \<^verbatim>\<open>estimate_employees\<close> on a finite double this loses nothing: the
  quotient by a million and its product with at most 25 do not overflow, and where the
  format would underflow both the double and the number of the model are smaller than 1,
  which \<^verbatim>\<open>int\<close> takes to 0.
\<close>

definition round_half_even :: "real \<Rightarrow> int" where
  "round_half_even q =
     (let f = \<lfloor>q\<rfloor>
      in if q - of_int f < 1 / 2 then f
         else if 1 / 2 < q - of_int f then f + 1
         else if even f then f else f + 1)"

definition to_double :: "real \<Rightarrow> real" where
  "to_double x =
     (if x = 0 then 0
      else (let e = \<lfloor>log 2 \<bar>x\<bar>\<rfloor> - 52
            in of_int (round_half_even (x / 2 powi e)) * 2 powi e))"

datatype pyfloat = Finite real | Infinity | NegInfinity | NotANumber

text \<open>
  \<^verbatim>\<open>x / c\<close> and \<^verbatim>\<open>x * c\<close> for a float \<open>x\<close> and a finite \<open>c\<close> (an \<^verbatim>\<open>int\<close> operand is converted
  first; a small one, as the constants of the source are, without rounding). The sign of
  a zero is not modelled.
\<close>

definition float_truediv :: "pyfloat \<Rightarrow> real \<Rightarrow> error + pyfloat" where
  "float_truediv x c =
     (if c = 0 then Inl ZeroDivisionError
      else Inr (case x of
                  Finite a \<Rightarrow> Finite (to_double (a / c))
                | Infinity \<Rightarrow> (if 0 < c then Infinity else NegInfinity)
                | NegInfinity \<Rightarrow> (if 0 < c then NegInfinity else Infinity)
                | NotANumber \<Rightarrow> NotANumber))"

definition float_mul :: "pyfloat \<Rightarrow> real \<Rightarrow> pyfloat" where
  "float_mul x c =
     (case x of
        Finite a \<Rightarrow> Finite (to_double (a * c))
      | Infinity \<Rightarrow> (if 0 < c then Infinity else if c < 0 then NegInfinity else NotANumber)
      | NegInfinity \<Rightarrow> (if 0 < c then NegInfinity else if c < 0 then Infinity else NotANumber)
      | NotANumber \<Rightarrow> NotANumber)"

text \<open>
  \<^verbatim>\<open>int(x)\<close> on a float truncates towards zero; it raises \<^verbatim>\<open>OverflowError\<close> on an
  infinity and \<^verbatim>\<open>ValueError\<close> on NaN.
\<close>

definition trunc :: "real \<Rightarrow> int" where
  "trunc x = (if 0 \<le> x then \<lfloor>x\<rfloor> else \<lceil>x\<rceil>)"

definition py_int :: "pyfloat \<Rightarrow> error + int" where
  "py_int x =
     (case x of
        Finite a \<Rightarrow> Inr (trunc a)
      | Infinity \<Rightarrow> Inl OverflowError
      | NegInfinity \<Rightarrow> Inl OverflowError
      | NotANumber \<Rightarrow> Inl ValueError)"

subsection \<open>Other operations\<close>

text \<open>
  \<^verbatim>\<open>a / b\<close> on floats idealised as real numbers; it raises \<^verbatim>\<open>ZeroDivisionError\<close> when
  \<open>b\<close> is zero.
\<close>

definition py_truediv :: "real \<Rightarrow> real \<Rightarrow> error + real" where
  "py_truediv a b = (if b = 0 then Inl ZeroDivisionError else Inr (a / b))"

text \<open>
  \<^verbatim>\<open>s.replace(old, new)\<close>: the occurrences of \<open>old\<close> are found from the left, without
  overlap. With an empty \<open>old\<close>, Python puts \<open>new\<close> before every element and at the end.
\<close>

function py_replace :: "'a list \<Rightarrow> 'a list \<Rightarrow> 'a list \<Rightarrow> 'a list" where
  "py_replace old new [] = (if old = [] then new else [])"
| "py_replace old new (c # cs) =
     (if old = [] then new @ c # py_replace old new cs
      else if prefix old (c # cs) then new @ py_replace old new (drop (length old) (c # cs))
      else c # py_replace old new cs)"
  by pat_completeness auto
termination
  by (relation "measure (\<lambda>(old, new, s). length s)") auto

section \<open>Benchmark table\<close>

text \<open>The group names and the keywords, as code points (with their pinyin).\<close>

definition shangmao_lingshou :: pystr where
  "shangmao_lingshou = [21830, 36152, 38646, 21806]"

definition zhizaoye :: pystr where
  "zhizaoye = [21046, 36896, 19994]"

definition jinrongye :: pystr where
  "jinrongye = [37329, 34701, 19994]"

definition keji_qiye :: pystr where
  "keji_qiye = [31185, 25216, 20225, 19994]"

definition jiaotong_yunshu :: pystr where
  "jiaotong_yunshu = [20132, 36890, 36816, 36755]"

definition lingshou :: pystr where "lingshou = [38646, 21806]"
definition shangmao :: pystr where "shangmao = [21830, 36152]"
definition zhizao :: pystr where "zhizao = [21046, 36896]"
definition jixie :: pystr where "jixie = [26426, 26800]"
definition huagong :: pystr where "huagong = [21270, 24037]"
definition jinrong :: pystr where "jinrong = [37329, 34701]"
definition zhengquan :: pystr where "zhengquan = [35777, 21048]"
definition yinhang :: pystr where "yinhang = [38134, 34892]"
definition keji :: pystr where "keji = [31185, 25216]"
definition ruanjian :: pystr where "ruanjian = [36719, 20214]"
definition hulianwang :: pystr where "hulianwang = [20114, 32852, 32593]"
definition yunshu :: pystr where "yunshu = [36816, 36755]"
definition hangyun :: pystr where "hangyun = [33322, 36816]"
definition wuliu :: pystr where "wuliu = [29289, 27969]"

record benchmark =
  roe :: real
  roa :: real
  debt_ratio :: real
  employee_per_million_revenue :: int
  profit_margin :: real

definition retail_benchmark :: benchmark where
  "retail_benchmark =
     \<lparr>roe = 12 / 100, roa = 8 / 100, debt_ratio = 45 / 100,
      employee_per_million_revenue = 25, profit_margin = 8 / 100\<rparr>"

definition industry_benchmarks :: "(pystr \<times> benchmark) list" where
  "industry_benchmarks =
     [(shangmao_lingshou, retail_benchmark),
      (zhizaoye,
         \<lparr>roe = 15 / 100, roa = 10 / 100, debt_ratio = 55 / 100,
          employee_per_million_revenue = 15, profit_margin = 12 / 100\<rparr>),
      (jinrongye,
         \<lparr>roe = 18 / 100, roa = 6 / 100, debt_ratio = 85 / 100,
          employee_per_million_revenue = 8, profit_margin = 25 / 100\<rparr>),
      (keji_qiye,
         \<lparr>roe = 20 / 100, roa = 12 / 100, debt_ratio = 35 / 100,
          employee_per_million_revenue = 12, profit_margin = 18 / 100\<rparr>),
      (jiaotong_yunshu,
         \<lparr>roe = 10 / 100, roa = 5 / 100, debt_ratio = 60 / 100,
          employee_per_million_revenue = 20, profit_margin = 6 / 100\<rparr>)]"

text \<open>
  \<^verbatim>\<open>self.industry_benchmarks.get(industry_group, self.industry_benchmarks["..."])\<close>:
  the entry of the group, and the entry of retail and trade for any other name.
\<close>

definition get_benchmark :: "pystr \<Rightarrow> benchmark" where
  "get_benchmark industry_group =
     (case map_of industry_benchmarks industry_group of
        Some b \<Rightarrow> b
      | None \<Rightarrow> retail_benchmark)"

section \<open>Classifier\<close>

text \<open>
  \<^verbatim>\<open>classify_industry_group\<close>: an \<^verbatim>\<open>if\<close>/\<^verbatim>\<open>elif\<close> chain of substring tests. The operator
  \<^verbatim>\<open>in\<close> raises \<^verbatim>\<open>TypeError\<close> when its right operand is a float, which is what an empty
  field of the table is.
\<close>

definition classify_industry_group :: "cell \<Rightarrow> error + pystr" where
  "classify_industry_group industry_detail =
     (case industry_detail of
        Str s \<Rightarrow>
          Inr (if py_in lingshou s \<or> py_in shangmao s then shangmao_lingshou
               else if py_in zhizao s \<or> py_in jixie s \<or> py_in huagong s then zhizaoye
               else if py_in jinrong s \<or> py_in zhengquan s \<or> py_in yinhang s then jinrongye
               else if py_in keji s \<or> py_in ruanjian s \<or> py_in hulianwang s then keji_qiye
               else if py_in yunshu s \<or> py_in hangyun s \<or> py_in wuliu s then jiaotong_yunshu
               else shangmao_lingshou)
      | _ \<Rightarrow> Inl TypeError)"

text \<open>The keywords of the five rules, in the order of the source.\<close>

definition rule_keywords :: "pystr list" where
  "rule_keywords =
     [lingshou, shangmao, zhizao, jixie, huagong, jinrong, zhengquan, yinhang,
      keji, ruanjian, hulianwang, yunshu, hangyun, wuliu]"

section \<open>Estimators\<close>

text \<open>
  \<^verbatim>\<open>estimate_employees\<close>, on a float: the quotient and the product are rounded to doubles,
  and \<^verbatim>\<open>int\<close> raises on a value that is not finite.
\<close>

definition estimate_employees :: "pyfloat \<Rightarrow> pystr \<Rightarrow> error + int" where
  "estimate_employees revenue industry_group =
     (let benchmark = get_benchmark industry_group;
          employee_per_million = employee_per_million_revenue benchmark
      in case float_truediv revenue 1000000 of
           Inl e \<Rightarrow> Inl e
         | Inr revenue_in_millions \<Rightarrow>
             (case py_int (float_mul revenue_in_millions (of_int employee_per_million)) of
                Inl e \<Rightarrow> Inl e
              | Inr n \<Rightarrow> Inr (max n 10)))"

text \<open>
  The estimate as the specification words it, on a finite revenue, with \<open>round\<close> to the
  nearest integer (\<^const>\<open>round\<close> takes a tie upwards; Python's \<^verbatim>\<open>round\<close> takes it to the even
  neighbour).
\<close>

definition spec_estimate_employees :: "real \<Rightarrow> pystr \<Rightarrow> int" where
  "spec_estimate_employees revenue industry_group =
     max (round (revenue / 1000000 *
            of_int (employee_per_million_revenue (get_benchmark industry_group)))) 10"

definition estimate_profit :: "real \<Rightarrow> pystr \<Rightarrow> real" where
  "estimate_profit revenue industry_group =
     (let benchmark = get_benchmark industry_group;
          profit_margin = profit_margin benchmark
      in revenue * profit_margin)"

text \<open>
  An argument of \<^verbatim>\<open>estimate_financial_ratios\<close> is a number or \<^verbatim>\<open>None\<close>. The tests
  \<^verbatim>\<open>if net_profit and total_assets\<close> are tests of truth value: \<^verbatim>\<open>None\<close> and zero are both
  false. (A float NaN, which Python counts as true, is not a number of the model.) Under
  a test that failed no value is read: \<open>num\<close> is applied to values that passed it.
\<close>

definition truthy :: "real option \<Rightarrow> bool" where
  "truthy v = (case v of None \<Rightarrow> False | Some x \<Rightarrow> x \<noteq> 0)"

definition num :: "real option \<Rightarrow> real" where
  "num v = (case v of None \<Rightarrow> 0 | Some x \<Rightarrow> x)"

definition estimate_roe :: "real option \<Rightarrow> real option \<Rightarrow> benchmark \<Rightarrow> error + real" where
  "estimate_roe total_assets net_profit benchmark =
     (if truthy net_profit \<and> truthy total_assets then
        (let estimated_net_assets = num total_assets * (1 - debt_ratio benchmark)
         in if estimated_net_assets > 0 then py_truediv (num net_profit) estimated_net_assets
            else Inr (roe benchmark))
      else Inr (roe benchmark))"

definition estimate_roa :: "real option \<Rightarrow> real option \<Rightarrow> benchmark \<Rightarrow> error + real" where
  "estimate_roa total_assets net_profit benchmark =
     (if truthy net_profit \<and> truthy total_assets
      then py_truediv (num net_profit) (num total_assets)
      else Inr (roa benchmark))"

definition estimate_turnover :: "real option \<Rightarrow> real option \<Rightarrow> error + real" where
  "estimate_turnover total_assets revenue =
     (if truthy revenue \<and> truthy total_assets
      then py_truediv (num revenue) (num total_assets)
      else Inr 1)"

text \<open>
  The result dictionary, as the list of its items in insertion order. An exception in
  one of the divisions leaves the function at once.
\<close>

definition estimate_financial_ratios ::
    "real option \<Rightarrow> real option \<Rightarrow> real option \<Rightarrow> pystr \<Rightarrow> error + (string \<times> real) list" where
  "estimate_financial_ratios total_assets net_profit revenue industry_group =
     (let benchmark = get_benchmark industry_group in
      case estimate_roe total_assets net_profit benchmark of
        Inl e \<Rightarrow> Inl e
      | Inr v_roe \<Rightarrow>
          (case estimate_roa total_assets net_profit benchmark of
             Inl e \<Rightarrow> Inl e
           | Inr v_roa \<Rightarrow>
               (case estimate_turnover total_assets revenue of
                  Inl e \<Rightarrow> Inl e
                | Inr v_turnover \<Rightarrow>
                    Inr [(''roe'', v_roe), (''roa'', v_roa),
                         (''debt_ratio'', debt_ratio benchmark),
                         (''total_asset_turnover'', v_turnover)])))"

text \<open>The value stored under a key of the result, when there is a result.\<close>

definition ratio :: "error + (string \<times> real) list \<Rightarrow> string \<Rightarrow> real option" where
  "ratio result key = (case result of Inl e \<Rightarrow> None | Inr ratios \<Rightarrow> map_of ratios key)"

section \<open>Report path\<close>

text \<open>
  \<^verbatim>\<open>report_file = output_file.replace('.csv', '_enhancement_report.md')\<close> in \<^verbatim>\<open>main\<close>.
  Both literals are ASCII, so a path is a string of characters here.
\<close>

definition report_file :: "string \<Rightarrow> string" where
  "report_file output_file = py_replace ''.csv'' ''_enhancement_report.md'' output_file"

text \<open>
  The report path as the specification words it: the extension of the output path (what
  follows the last dot of its last component, with the dot) is replaced by the suffix.
\<close>

definition strip_extension :: "string \<Rightarrow> string" where
  "strip_extension p =
     (if CHR ''.'' \<in> set (takeWhile (\<lambda>c. c \<noteq> CHR ''/'') (rev p))
      then rev (tl (dropWhile (\<lambda>c. c \<noteq> CHR ''.'') (rev p)))
      else p)"

definition spec_report_file :: "string \<Rightarrow> string" where
  "spec_report_file output_file = strip_extension output_file @ ''_enhancement_report.md''"

section \<open>The data frame and the enhancement pass\<close>

text \<open>
  A row of the table. The table has the four columns the pass reads (\<^verbatim>\<open>industry_type\<close>,
  \<^verbatim>\<open>revenue\<close>, \<^verbatim>\<open>employee_count\<close>, \<^verbatim>\<open>net_profit\<close>) and any number of further columns, which
  are kept in \<open>other\<close> in their order. The three numeric columns hold a finite number or
  are empty (\<open>None\<close> stands for the NaN of an empty field); the label and the further
  columns hold any cell.
\<close>

record row =
  industry_type :: cell
  revenue :: "real option"
  employee_count :: "real option"
  net_profit :: "real option"
  other :: "cell list"

datatype column = IndustryType | Revenue | EmployeeCount | NetProfit | Other nat

record dataframe =
  other_columns :: nat
  rows :: "row list"

text \<open>\<^verbatim>\<open>df.columns\<close>; its order is the order of the entries of the two count dictionaries.\<close>

definition columns :: "dataframe \<Rightarrow> column list" where
  "columns df =
     [IndustryType, Revenue, EmployeeCount, NetProfit] @ map Other [0..<other_columns df]"

text \<open>\<^verbatim>\<open>isnull\<close> on the cell of a row in a column.\<close>

fun isnull :: "row \<Rightarrow> column \<Rightarrow> bool" where
  "isnull r IndustryType = (industry_type r = NaN)"
| "isnull r Revenue = (revenue r = None)"
| "isnull r EmployeeCount = (employee_count r = None)"
| "isnull r NetProfit = (net_profit r = None)"
| "isnull r (Other k) = (k < length (other r) \<and> other r ! k = NaN)"

text \<open>\<^verbatim>\<open>df[col].isnull().sum()\<close>\<close>

definition missing_count :: "row list \<Rightarrow> column \<Rightarrow> nat" where
  "missing_count rs col = length (filter (\<lambda>r. isnull r col) rs)"

text \<open>
  The loop \<^verbatim>\<open>for col in df.columns\<close> that fills a dictionary of the counts: a column
  gets an entry only when its count is positive.
\<close>

fun missing_counts :: "column list \<Rightarrow> row list \<Rightarrow> (column \<times> nat) list" where
  "missing_counts [] rs = []"
| "missing_counts (col # cols) rs =
     (let missing_count = missing_count rs col
      in if missing_count > 0 then (col, missing_count) # missing_counts cols rs
         else missing_counts cols rs)"

text \<open>\<^verbatim>\<open>d[k] = v\<close> on a dictionary kept as the list of its items.\<close>

fun dict_set :: "'k \<Rightarrow> 'v \<Rightarrow> ('k \<times> 'v) list \<Rightarrow> ('k \<times> 'v) list" where
  "dict_set k v [] = [(k, v)]"
| "dict_set k v (p # ps) = (if fst p = k then (k, v) # ps else p # dict_set k v ps)"

text \<open>
  The two method descriptions (``estimated from the revenue and the industry benchmark'',
  ``estimated from the revenue and the industry profit margin''), as code points.
\<close>

definition method_benchmark :: pystr where
  "method_benchmark =
     [22522, 20110, 33829, 25910, 21644, 34892, 19994, 26631, 26438, 20272, 31639]"

definition method_margin :: pystr where
  "method_margin =
     [22522, 20110, 33829, 25910, 21644, 34892, 19994, 21033, 28070, 29575, 20272, 31639]"

text \<open>
  The part of the log that the loop over the rows changes: \<^verbatim>\<open>enhanced_fields\<close> and
  \<^verbatim>\<open>enhancement_methods\<close>. A field is appended, and its method stored, the first time
  a row has it filled.
\<close>

type_synonym fields_log = "column list \<times> (column \<times> pystr) list"

definition note_field :: "column \<Rightarrow> pystr \<Rightarrow> fields_log \<Rightarrow> fields_log" where
  "note_field field method lg =
     (if field \<notin> set (fst lg) then (fst lg @ [field], dict_set field method (snd lg))
      else lg)"

text \<open>
  The body of \<^verbatim>\<open>for idx, row in df.iterrows()\<close>. The row that \<^verbatim>\<open>iterrows\<close> hands out is
  a copy, so both tests read the cells as they were before the pass; the assignments
  \<^verbatim>\<open>df.loc[idx, ...] = ...\<close> write the cells of this row of the frame. The classifier is
  called first, on the cell of \<^verbatim>\<open>industry_type\<close> (the default \<^verbatim>\<open>''\<close> of \<^verbatim>\<open>row.get\<close> is for
  a table without that column), and its exception ends the pass, as one of
  \<^verbatim>\<open>estimate_employees\<close> would.
\<close>

definition enhance_row :: "row \<Rightarrow> fields_log \<Rightarrow> error + row \<times> fields_log" where
  "enhance_row r lg =
     (case classify_industry_group (industry_type r) of
        Inl e \<Rightarrow> Inl e
      | Inr industry_group \<Rightarrow>
          (case (case (employee_count r, revenue r) of
                   (None, Some rv) \<Rightarrow>
                     (case estimate_employees (Finite rv) industry_group of
                        Inl e \<Rightarrow> Inl e
                      | Inr estimated_employees \<Rightarrow>
                          Inr (r\<lparr>employee_count := Some (of_int estimated_employees)\<rparr>,
                               note_field EmployeeCount method_benchmark lg))
                 | _ \<Rightarrow> Inr (r, lg)) of
             Inl e \<Rightarrow> Inl e
           | Inr (r1, lg1) \<Rightarrow>
               (let (r2, lg2) =
                      (case (net_profit r, revenue r) of
                         (None, Some rv) \<Rightarrow>
                           (r1\<lparr>net_profit := Some (estimate_profit rv industry_group)\<rparr>,
                            note_field NetProfit method_margin lg1)
                       | _ \<Rightarrow> (r1, lg1))
                in Inr (r2, lg2))))"

fun enhance_rows :: "row list \<Rightarrow> fields_log \<Rightarrow> error + row list \<times> fields_log" where
  "enhance_rows [] lg = Inr ([], lg)"
| "enhance_rows (r # rs) lg =
     (case enhance_row r lg of
        Inl e \<Rightarrow> Inl e
      | Inr (r', lg') \<Rightarrow>
          (case enhance_rows rs lg' of
             Inl e \<Rightarrow> Inl e
           | Inr (rs', lg'') \<Rightarrow> Inr (r' # rs', lg'')))"

record enhancement_log =
  original_missing :: "(column \<times> nat) list"
  enhanced_fields :: "column list"
  enhancement_methods :: "(column \<times> pystr) list"
  final_missing :: "(column \<times> nat) list"
  total_records :: nat
  fields_enhanced :: nat
  missing_reduction :: int

text \<open>
  \<^verbatim>\<open>enhance_csv_data\<close>, from the frame that \<^verbatim>\<open>read_csv\<close> returned to the frame that
  \<^verbatim>\<open>to_csv\<close> writes and the log. When the loop raises, nothing is written and no log
  is returned.
\<close>

definition enhance_csv_data :: "dataframe \<Rightarrow> error + dataframe \<times> enhancement_log" where
  "enhance_csv_data df =
     (let original = missing_counts (columns df) (rows df) in
      case enhance_rows (rows df) ([], []) of
        Inl e \<Rightarrow> Inl e
      | Inr (rs', lg) \<Rightarrow>
          (let df' = df\<lparr>rows := rs'\<rparr>;
               enhanced_missing = missing_counts (columns df') (rows df')
           in Inr (df',
                \<lparr>original_missing = original,
                 enhanced_fields = fst lg,
                 enhancement_methods = snd lg,
                 final_missing = enhanced_missing,
                 total_records = length (rows df'),
                 fields_enhanced = length (fst lg),
                 missing_reduction = int (length original) - int (length enhanced_missing)\<rparr>)))"

text \<open>The count a dictionary of counts records for a column: none stands for zero.\<close>

definition recorded :: "(column \<times> nat) list \<Rightarrow> column \<Rightarrow> nat" where
  "recorded counts col = (case map_of counts col of None \<Rightarrow> 0 | Some n \<Rightarrow> n)"

section \<open>The effect of the pass on a row\<close>

text \<open>
  What the pass makes of a row once its group is known: each of the two fields is
  estimated when it is empty and the revenue is not, and kept otherwise. The proofs relate
  \<open>enhance_row\<close> to it.
\<close>

definition filled :: "pystr \<Rightarrow> row \<Rightarrow> row" where
  "filled g r =
     r\<lparr>employee_count :=
         (case (employee_count r, revenue r) of
            (None, Some rv) \<Rightarrow>
              (case estimate_employees (Finite rv) g of
                 Inl e \<Rightarrow> None
               | Inr estimated_employees \<Rightarrow> Some (of_int estimated_employees))
          | _ \<Rightarrow> employee_count r),
       net_profit :=
         (case (net_profit r, revenue r) of
            (None, Some rv) \<Rightarrow> Some (estimate_profit rv g)
          | _ \<Rightarrow> net_profit r)\<rparr>"

definition pass_rel :: "row \<Rightarrow> row \<Rightarrow> bool" where
  "pass_rel r r' = (\<exists>g. classify_industry_group (industry_type r) = Inr g \<and> r' = filled g r)"

section \<open>Example frames\<close>

text \<open>
  A frame of three rows and one further column (a name): a software company with both
  fields empty, a farm without revenue, and a bank with the net profit empty; next to it
  the frame and the log the pass returns. The last frame has one row, whose industry
  label is empty.
\<close>

definition example_frame :: dataframe where
  "example_frame =
     \<lparr>other_columns = 1,
      rows =
        [\<lparr>industry_type = Str [36719, 20214, 24320, 21457], revenue = Some 10000000,
          employee_count = None, net_profit = None, other = [Str [65, 99, 109, 101]]\<rparr>,
         \<lparr>industry_type = Str [20892, 19994], revenue = None,
          employee_count = None, net_profit = Some 5, other = [NaN]\<rparr>,
         \<lparr>industry_type = Str [38134, 34892], revenue = Some 1500000,
          employee_count = Some 3, net_profit = None, other = [NaN]\<rparr>]\<rparr>"

definition example_enhanced :: dataframe where
  "example_enhanced =
     \<lparr>other_columns = 1,
      rows =
        [\<lparr>industry_type = Str [36719, 20214, 24320, 21457], revenue = Some 10000000,
          employee_count = Some 120, net_profit = Some 1800000,
          other = [Str [65, 99, 109, 101]]\<rparr>,
         \<lparr>industry_type = Str [20892, 19994], revenue = None,
          employee_count = None, net_profit = Some 5, other = [NaN]\<rparr>,
         \<lparr>industry_type = Str [38134, 34892], revenue = Some 1500000,
          employee_count = Some 3, net_profit = Some 375000, other = [NaN]\<rparr>]\<rparr>"

definition example_log :: enhancement_log where
  "example_log =
     \<lparr>original_missing = [(Revenue, 1), (EmployeeCount, 2), (NetProfit, 2), (Other 0, 2)],
      enhanced_fields = [EmployeeCount, NetProfit],
      enhancement_methods = [(EmployeeCount, method_benchmark), (NetProfit, method_margin)],
      final_missing = [(Revenue, 1), (EmployeeCount, 1), (Other 0, 2)],
      total_records = 3,
      fields_enhanced = 2,
      missing_reduction = 1\<rparr>"

definition no_label_frame :: dataframe where
  "no_label_frame =
     \<lparr>other_columns = 1,
      rows =
        [\<lparr>industry_type = NaN, revenue = Some 1500000,
          employee_count = None, net_profit = None, other = [Str [65, 99, 109, 101]]\<rparr>]\<rparr>"

section \<open>Facts about the Python operations and the table of benchmarks\<close>

lemmas name_defs =
  shangmao_lingshou_def zhizaoye_def jinrongye_def keji_qiye_def jiaotong_yunshu_def

lemmas keyword_defs =
  lingshou_def shangmao_def zhizao_def jixie_def huagong_def jinrong_def zhengquan_def
  yinhang_def keji_def ruanjian_def hulianwang_def yunshu_def hangyun_def wuliu_def

lemma py_in_sublist: "py_in k s = sublist k s"
  by (induction s) (auto simp: sublist_Cons_right)

lemma get_benchmark_retail: "get_benchmark shangmao_lingshou = retail_benchmark"
  by (simp add: get_benchmark_def industry_benchmarks_def)

lemma benchmark_employees_pos: "0 < employee_per_million_revenue (get_benchmark g)"
  by (simp add: get_benchmark_def industry_benchmarks_def retail_benchmark_def)

lemma trunc_max: "max (trunc x) 10 = max \<lfloor>x\<rfloor> 10"
  unfolding trunc_def by (auto simp: max_def; linarith)

subsection \<open>Evaluating the rounding to a double\<close>

lemma binade:
  assumes "2 powi k \<le> \<bar>x\<bar>" and "\<bar>x\<bar> < 2 powi (k + 1)"
  shows "\<lfloor>log 2 \<bar>x\<bar>\<rfloor> = k"
proof -
  have pos: "0 < \<bar>x\<bar>"
    using assms(1) by (smt (verit) zero_less_power_int)
  have "(2::real) powr real_of_int k = 2 powi k"
    by (rule powr_real_of_int') simp_all
  moreover have "(2::real) powr real_of_int (k + 1) = 2 powi (k + 1)"
    by (rule powr_real_of_int') simp_all
  ultimately have "2 powr real_of_int k \<le> \<bar>x\<bar> \<and> \<bar>x\<bar> < 2 powr real_of_int (k + 1)"
    using assms by simp
  with pos show ?thesis
    by (subst floor_log_eq_powr_iff) simp_all
qed

lemma to_double_binade:
  assumes "2 powi k \<le> \<bar>x\<bar>" and "\<bar>x\<bar> < 2 powi (k + 1)"
  shows "to_double x = of_int (round_half_even (x / 2 powi (k - 52))) * 2 powi (k - 52)"
proof -
  have "x \<noteq> 0" using assms(1) by (smt (verit) zero_less_power_int)
  then show ?thesis
    by (simp add: to_double_def binade [OF assms] Let_def)
qed

text \<open>
  Numbers with few bits are doubles; 29/25 is not, nor is 25 times its double, which is
  130604389193744375 / 4503599627370496.
\<close>

lemma to_double_exact:
  "to_double (3 / 2) = 3 / 2"
  "to_double (75 / 2) = 75 / 2"
  "to_double 10 = 10"
  "to_double 120 = 120"
  by (simp_all add: to_double_binade [of 0 "3 / 2"] to_double_binade [of 5 "75 / 2"]
        to_double_binade [of 3 10] to_double_binade [of 6 120]
        round_half_even_def power_int_minus)

lemma to_double_29_25: "to_double (29 / 25) = 5224175567749775 / 4503599627370496"
  by (simp add: to_double_binade [of 0] round_half_even_def power_int_minus)

lemma to_double_29_25_times_25:
  "to_double (130604389193744375 / 4503599627370496) = 8162774324609023 / 281474976710656"
  by (simp add: to_double_binade [of 4] round_half_even_def power_int_minus)

subsection \<open>The estimate on the kinds of float\<close>

lemma estimate_employees_Finite:
  "estimate_employees (Finite r) g =
     Inr (max (trunc (to_double (to_double (r / 1000000) *
            of_int (employee_per_million_revenue (get_benchmark g))))) 10)"
  by (simp add: estimate_employees_def float_truediv_def float_mul_def py_int_def Let_def)

lemma estimate_employees_not_finite:
  "estimate_employees Infinity g = Inl OverflowError"
  "estimate_employees NegInfinity g = Inl OverflowError"
  "estimate_employees NotANumber g = Inl ValueError"
  by (simp_all add: estimate_employees_def float_truediv_def float_mul_def py_int_def Let_def
        benchmark_employees_pos)

section \<open>The estimate of the employees\<close>

text \<open>
  C1 (as the code has it). \<^verbatim>\<open>estimate_employees\<close> converts the scaled revenue with
  \<^verbatim>\<open>int\<close>, which truncates, and not with \<^verbatim>\<open>round\<close>: for every finite revenue, also a
  negative one, and every group name the result is the larger of 10 and the floor of the
  double that \<open>revenue / 1000000 * employee_per_million_revenue\<close> computes (the quotient
  rounded to a double, and the product rounded again). In particular it is never below 10.
  (Truncation and floor differ on negative numbers only, where the result is 10 either
  way.) On an infinite revenue \<^verbatim>\<open>int\<close> raises \<^verbatim>\<open>OverflowError\<close>, and on NaN \<^verbatim>\<open>ValueError\<close>.
\<close>

theorem estimate_employees_floor:
  "estimate_employees (Finite r) g =
     Inr (max \<lfloor>to_double (to_double (r / 1000000) *
            of_int (employee_per_million_revenue (get_benchmark g)))\<rfloor> 10)
   \<and> (\<exists>n. estimate_employees (Finite r) g = Inr n \<and> 10 \<le> n)
   \<and> estimate_employees Infinity g = Inl OverflowError
   \<and> estimate_employees NegInfinity g = Inl OverflowError
   \<and> estimate_employees NotANumber g = Inl ValueError"
  by (simp add: estimate_employees_Finite estimate_employees_not_finite trunc_max)

text \<open>
  C1 as the specification states it fails: a revenue of 1500000 in retail and trade scales
  to 37.5 (in doubles without rounding), which \<^verbatim>\<open>int\<close> takes to 37, and rounding (to the
  nearest integer, the tie upwards or to the even neighbour) takes to 38.
\<close>

theorem estimate_employees_round_counterexample:
  "estimate_employees (Finite 1500000) shangmao_lingshou = Inr 37 \<and>
   spec_estimate_employees 1500000 shangmao_lingshou = 38"
  by (simp add: estimate_employees_Finite spec_estimate_employees_def get_benchmark_retail
        retail_benchmark_def to_double_exact trunc_def round_def)

text \<open>
  The rounding of the two operations shows in the result: 1160000 / 1000000 is the double
  next below 1.16, its product with 25 is the double next below 29, and the estimate is 28.
\<close>

lemma estimate_employees_1160000:
  "estimate_employees (Finite 1160000) shangmao_lingshou = Inr 28"
  by (simp add: estimate_employees_Finite get_benchmark_retail retail_benchmark_def
        to_double_29_25 to_double_29_25_times_25 trunc_def)

section \<open>The financial ratios\<close>

text \<open>No division of \<^verbatim>\<open>estimate_financial_ratios\<close> fails: each block yields a value.\<close>

lemma estimate_roe_Inr:
  "estimate_roe ta np b =
     Inr (if truthy np \<and> truthy ta \<and> 0 < num ta * (1 - debt_ratio b)
          then num np / (num ta * (1 - debt_ratio b)) else roe b)"
  by (simp add: estimate_roe_def Let_def py_truediv_def)

lemma estimate_roa_Inr:
  "estimate_roa ta np b =
     Inr (if truthy np \<and> truthy ta then num np / num ta else roa b)"
  by (auto simp: estimate_roa_def py_truediv_def truthy_def num_def split: option.splits)

lemma estimate_turnover_Inr:
  "estimate_turnover ta rv =
     Inr (if truthy rv \<and> truthy ta then num rv / num ta else 1)"
  by (auto simp: estimate_turnover_def py_truediv_def truthy_def num_def split: option.splits)

lemma estimate_financial_ratios_Inr:
  "estimate_financial_ratios ta np rv g =
     Inr [(''roe'', if truthy np \<and> truthy ta \<and> 0 < num ta * (1 - debt_ratio (get_benchmark g))
                   then num np / (num ta * (1 - debt_ratio (get_benchmark g)))
                   else roe (get_benchmark g)),
          (''roa'', if truthy np \<and> truthy ta then num np / num ta else roa (get_benchmark g)),
          (''debt_ratio'', debt_ratio (get_benchmark g)),
          (''total_asset_turnover'', if truthy rv \<and> truthy ta then num rv / num ta else 1)]"
  by (simp add: estimate_financial_ratios_def estimate_roe_Inr estimate_roa_Inr
        estimate_turnover_Inr Let_def)

text \<open>
  C2 (as the code has it). The test before the division is one of truth value, so a zero
  counts as an absent value: the return on assets is \<open>net_profit / total_assets\<close> when both
  are present and neither is zero, and the group's \<open>roa\<close> when either is zero or absent
  (\<^verbatim>\<open>None\<close>).
\<close>

theorem roa_truth_value:
  "ratio (estimate_financial_ratios (Some t) (Some n) rv g) ''roa'' =
     Some (if n \<noteq> 0 \<and> t \<noteq> 0 then n / t else roa (get_benchmark g))
   \<and> ratio (estimate_financial_ratios None np rv g) ''roa'' = Some (roa (get_benchmark g))
   \<and> ratio (estimate_financial_ratios ta None rv g) ''roa'' = Some (roa (get_benchmark g))"
  by (simp add: estimate_financial_ratios_Inr ratio_def truthy_def num_def)

text \<open>
  C2 as the specification states it fails: with a net profit of 0 and total assets of 100,
  both present, the result is the benchmark's 0.08 and not \<open>0 / 100\<close>.
\<close>

theorem roa_present_zero_counterexample:
  "ratio (estimate_financial_ratios (Some 100) (Some 0) None shangmao_lingshou) ''roa''
     = Some (8 / 100)
   \<and> roa (get_benchmark shangmao_lingshou) = 8 / 100
   \<and> (0::real) / 100 \<noteq> 8 / 100"
  by (simp add: estimate_financial_ratios_Inr ratio_def truthy_def num_def
        get_benchmark_retail retail_benchmark_def)

text \<open>
  C7. The return on equity is \<open>net_profit / (total_assets * (1 - debt_ratio))\<close> when both
  inputs are present and not zero and that denominator is positive; it is the group's
  \<open>roe\<close> when the denominator is not positive, and when either input is absent.
\<close>

theorem roe_cases:
  "(n \<noteq> 0 \<and> t \<noteq> 0 \<and> 0 < t * (1 - debt_ratio (get_benchmark g)) \<longrightarrow>
      ratio (estimate_financial_ratios (Some t) (Some n) rv g) ''roe''
        = Some (n / (t * (1 - debt_ratio (get_benchmark g)))))
   \<and> (t * (1 - debt_ratio (get_benchmark g)) \<le> 0 \<longrightarrow>
      ratio (estimate_financial_ratios (Some t) (Some n) rv g) ''roe''
        = Some (roe (get_benchmark g)))
   \<and> (ta = None \<or> np = None \<longrightarrow>
      ratio (estimate_financial_ratios ta np rv g) ''roe'' = Some (roe (get_benchmark g)))"
  by (auto simp: estimate_financial_ratios_Inr ratio_def truthy_def num_def)

theorem roe_cases_witness:
  "ratio (estimate_financial_ratios (Some 100) (Some 11) None shangmao_lingshou) ''roe''
     = Some (1 / 5)
   \<and> ratio (estimate_financial_ratios (Some (- 100)) (Some 11) None shangmao_lingshou) ''roe''
     = Some (12 / 100)
   \<and> ratio (estimate_financial_ratios None (Some 11) None shangmao_lingshou) ''roe''
     = Some (12 / 100)"
  using roe_cases [of 11 100 shangmao_lingshou None None "Some 11"]
    roe_cases [of 11 "- 100" shangmao_lingshou None None "Some 11"]
  by (simp add: get_benchmark_retail retail_benchmark_def)

text \<open>
  C10 (as the code has it). The tests that guard the divisions by \<open>total_assets\<close> are tests
  of truth value and reject a zero as they reject \<^verbatim>\<open>None\<close>: for every input the function
  returns its dictionary and no division is reached with a zero denominator; with total
  assets of zero the return on assets is the group's \<open>roa\<close> and the asset turnover is 1.
\<close>

theorem zero_assets_guarded:
  "(\<exists>ratios. estimate_financial_ratios ta np rv g = Inr ratios)
   \<and> ratio (estimate_financial_ratios (Some 0) np rv g) ''roa'' = Some (roa (get_benchmark g))
   \<and> ratio (estimate_financial_ratios (Some 0) np rv g) ''total_asset_turnover'' = Some 1"
  by (simp add: estimate_financial_ratios_Inr ratio_def truthy_def num_def)

text \<open>
  C10 as the specification states it fails: no input with total assets present and zero
  reaches a division by zero.
\<close>

theorem zero_assets_counterexample:
  "\<not> (\<exists>np rv g. (np \<noteq> None \<or> rv \<noteq> None) \<and>
        estimate_financial_ratios (Some 0) np rv g = Inl ZeroDivisionError)"
  by (simp add: estimate_financial_ratios_Inr)

section \<open>The classifier\<close>

text \<open>
  On a string the classifier raises nothing, and a string that contains none of the
  keywords, the empty string among them, gets the default group, retail and trade.
\<close>

lemma classify_string:
  "(\<exists>g. classify_industry_group (Str s) = Inr g)
   \<and> ((\<forall>k \<in> set rule_keywords. \<not> py_in k s) \<longrightarrow>
        classify_industry_group (Str s) = Inr shangmao_lingshou)"
  by (simp add: classify_industry_group_def rule_keywords_def keyword_defs)

lemma classify_string_examples:
  "classify_industry_group (Str [97, 98, 99]) = Inr shangmao_lingshou"
  "classify_industry_group (Str [36719, 20214, 24320, 21457]) = Inr keji_qiye"
  by (simp_all add: keyword_defs classify_industry_group_def)

text \<open>
  C8, at the empty label of a table. The empty string gets the default group, but a
  table has no empty string: \<^verbatim>\<open>read_csv\<close> delivers an empty \<^verbatim>\<open>industry_type\<close> field as the
  float NaN, and on it the first substring test of the classifier raises \<^verbatim>\<open>TypeError\<close>
  where the default group is due.
\<close>

theorem classify_empty_cell_raises:
  "classify_industry_group NaN = Inl TypeError
   \<and> classify_industry_group (Str []) = Inr shangmao_lingshou"
  by (simp add: classify_industry_group_def keyword_defs)

section \<open>The path of the report\<close>

text \<open>
  No occurrence of \<^verbatim>\<open>.csv\<close> starts in a stem and ends in the \<^verbatim>\<open>.csv\<close> appended to it,
  since the dot is the first character of \<^verbatim>\<open>.csv\<close> only.
\<close>

lemma csv_not_prefix:
  assumes "\<not> py_in ''.csv'' (c # cs)"
  shows "\<not> prefix ''.csv'' (c # cs @ ''.csv'')"
proof (cases cs)
  case Nil
  then show ?thesis by (auto simp: prefix_Cons)
next
  case (Cons c2 cs2)
  show ?thesis
  proof (cases cs2)
    case Nil
    with Cons show ?thesis by (auto simp: prefix_Cons)
  next
    case (Cons c3 cs3)
    with \<open>cs = c2 # cs2\<close> assms show ?thesis
      by (cases cs3) (auto simp: prefix_Cons)
  qed
qed

lemma py_replace_skip:
  "old \<noteq> [] \<Longrightarrow> \<not> prefix old (c # cs) \<Longrightarrow>
     py_replace old new (c # cs) = c # py_replace old new cs"
  by simp

lemma report_file_append:
  "\<not> py_in ''.csv'' stem \<Longrightarrow>
     py_replace ''.csv'' new (stem @ ''.csv'') = stem @ new"
proof (induction stem)
  case Nil
  show ?case by simp
next
  case (Cons c cs)
  from Cons.prems have np: "\<not> prefix ''.csv'' (c # cs @ ''.csv'')"
    by (rule csv_not_prefix)
  from Cons.prems have "\<not> py_in ''.csv'' cs" by simp
  then have ih: "py_replace ''.csv'' new (cs @ ''.csv'') = cs @ new" by (rule Cons.IH)
  have "py_replace ''.csv'' new (c # (cs @ ''.csv'')) = c # py_replace ''.csv'' new (cs @ ''.csv'')"
    by (rule py_replace_skip [OF _ np]) simp
  with ih show ?case by simp
qed

text \<open>
  For an output path that ends in \<^verbatim>\<open>.csv\<close> and has no other occurrence of \<^verbatim>\<open>.csv\<close>, the
  path of the report is the output path with that ending replaced by
  \<^verbatim>\<open>_enhancement_report.md\<close>.
\<close>

lemma report_file_csv:
  "\<not> py_in ''.csv'' stem \<Longrightarrow>
     report_file (stem @ ''.csv'') = stem @ ''_enhancement_report.md''"
  unfolding report_file_def by (rule report_file_append)

lemma report_file_csv_example:
  "report_file ''results/out.csv'' = ''results/out_enhancement_report.md''"
  using report_file_csv [of "''results/out''"] by simp

text \<open>
  For an output path without \<^verbatim>\<open>.csv\<close> the path of the report is the output path itself.
\<close>

lemma py_replace_absent:
  "old \<noteq> [] \<Longrightarrow> \<not> py_in old s \<Longrightarrow> py_replace old new s = s"
  by (induction s) simp_all

lemma report_file_without_csv: "\<not> py_in ''.csv'' p \<Longrightarrow> report_file p = p"
  unfolding report_file_def by (rule py_replace_absent) simp

text \<open>
  C9, at two output paths. The code replaces every occurrence of \<^verbatim>\<open>.csv\<close> and nothing
  else. For \<^verbatim>\<open>out.txt\<close> the path of the report is \<^verbatim>\<open>out.txt\<close> again, so \<^verbatim>\<open>main\<close> writes the
  report over the table it has just written, where replacing the extension gives
  \<^verbatim>\<open>out_enhancement_report.md\<close>; for \<^verbatim>\<open>data.csv/out.csv\<close> the name of the directory is
  rewritten as well.
\<close>

theorem report_file_overwrites:
  "report_file ''out.txt'' = ''out.txt''
   \<and> spec_report_file ''out.txt'' = ''out_enhancement_report.md''
   \<and> report_file ''data.csv/out.csv'' = ''data_enhancement_report.md/out_enhancement_report.md''
   \<and> spec_report_file ''data.csv/out.csv'' = ''data.csv/out_enhancement_report.md''"
  by (simp add: report_file_def spec_report_file_def strip_extension_def)

section \<open>The enhancement pass\<close>

text \<open>A row that the pass gets through is filled as its group says.\<close>

lemma enhance_row_Inr:
  assumes "enhance_row r lg = Inr (r', lg')"
  shows "pass_rel r r'"
proof (cases "classify_industry_group (industry_type r)")
  case (Inl e)
  with assms show ?thesis by (simp add: enhance_row_def)
next
  case (Inr g)
  with assms have "r' = filled g r"
    by (auto simp: enhance_row_def filled_def estimate_employees_Finite split: option.splits)
  with Inr show ?thesis by (auto simp: pass_rel_def)
qed

lemma enhance_rows_all2:
  "enhance_rows rs lg = Inr (rs', lg') \<Longrightarrow> list_all2 pass_rel rs rs'"
proof (induction rs arbitrary: lg rs' lg')
  case Nil
  then show ?case by simp
next
  case (Cons r rs)
  from Cons.prems obtain r1 lg1 rs1 where
    step: "enhance_row r lg = Inr (r1, lg1)" and
    rest: "enhance_rows rs lg1 = Inr (rs1, lg')" and
    out: "rs' = r1 # rs1"
    by (auto split: sum.splits)
  from step have "pass_rel r r1" by (rule enhance_row_Inr)
  moreover from rest have "list_all2 pass_rel rs rs1" by (rule Cons.IH)
  ultimately show ?case using out by simp
qed

text \<open>
  For a row whose label is a string the step succeeds: \<open>employee_count\<close> is estimated
  exactly when it is empty and the revenue is present, and so is \<open>net_profit\<close>; without a
  revenue the row is left as it is.
\<close>

lemma enhance_row_label:
  assumes "industry_type r = Str s"
  shows "\<exists>g lg'. classify_industry_group (Str s) = Inr g \<and> enhance_row r lg = Inr (filled g r, lg')"
proof -
  obtain g where g: "classify_industry_group (Str s) = Inr g"
    by (simp add: classify_industry_group_def)
  with assms have "\<exists>lg'. enhance_row r lg = Inr (filled g r, lg')"
    by (auto simp: enhance_row_def filled_def estimate_employees_Finite split: option.splits)
  with g show ?thesis by blast
qed

lemma filled_no_revenue: "revenue r = None \<Longrightarrow> filled g r = r"
  by (simp add: filled_def split: option.splits)

lemma filled_employee_count:
  "employee_count r = None \<Longrightarrow> revenue r = Some rv \<Longrightarrow>
     \<exists>n. estimate_employees (Finite rv) g = Inr n \<and> employee_count (filled g r) = Some (of_int n)"
  by (simp add: filled_def estimate_employees_Finite)

text \<open>A row that the pass has filled is left as it is by a second pass, and so is the log.\<close>

lemma enhance_row_fix:
  assumes "pass_rel r r'"
  shows "enhance_row r' lg = Inr (r', lg)"
proof -
  from assms obtain g where g: "classify_industry_group (industry_type r) = Inr g"
    and r': "r' = filled g r"
    by (auto simp: pass_rel_def)
  have "industry_type r' = industry_type r" by (simp add: r' filled_def)
  with g have "classify_industry_group (industry_type r') = Inr g" by simp
  moreover have "revenue r' = revenue r" by (simp add: r' filled_def)
  moreover have "revenue r \<noteq> None \<Longrightarrow> employee_count r' \<noteq> None"
    by (auto simp: r' filled_def estimate_employees_Finite split: option.splits)
  moreover have "revenue r \<noteq> None \<Longrightarrow> net_profit r' \<noteq> None"
    by (auto simp: r' filled_def split: option.splits)
  ultimately show ?thesis
    by (auto simp: enhance_row_def split: option.splits)
qed

lemma enhance_rows_fix:
  "list_all2 pass_rel rs rs' \<Longrightarrow> enhance_rows rs' lg = Inr (rs', lg)"
  by (induction rs rs' rule: list_all2_induct) (simp_all add: enhance_row_fix)

lemma columns_rows_update: "columns (df\<lparr>rows := rs\<rparr>) = columns df"
  by (simp add: columns_def)

lemma enhance_csv_data_Inr:
  assumes "enhance_csv_data df = Inr (df', lg)"
  obtains rs' fl where
    "enhance_rows (rows df) ([], []) = Inr (rs', fl)"
    "df' = df\<lparr>rows := rs'\<rparr>"
    "original_missing lg = missing_counts (columns df) (rows df)"
    "final_missing lg = missing_counts (columns df) rs'"
    "enhanced_fields lg = fst fl"
    "total_records lg = length rs'"
  using assms
  by (auto simp: enhance_csv_data_def Let_def columns_def split: sum.splits)


lemma pass_rel_isnull:
  assumes "pass_rel r r'"
  shows "isnull r' col \<Longrightarrow> isnull r col"
    and "col \<noteq> EmployeeCount \<Longrightarrow> col \<noteq> NetProfit \<Longrightarrow> isnull r' col = isnull r col"
  using assms
  by (cases col; auto simp: pass_rel_def filled_def estimate_employees_Finite
        split: option.splits)+

lemma missing_count_Cons:
  "missing_count (r # rs) col = (if isnull r col then 1 else 0) + missing_count rs col"
  by (simp add: missing_count_def)

lemma missing_count_le:
  "list_all2 pass_rel rs rs' \<Longrightarrow> missing_count rs' col \<le> missing_count rs col"
  by (induction rs rs' rule: list_all2_induct)
    (auto simp: missing_count_Cons missing_count_def dest: pass_rel_isnull(1))

lemma missing_count_eq:
  "list_all2 pass_rel rs rs' \<Longrightarrow> col \<noteq> EmployeeCount \<Longrightarrow> col \<noteq> NetProfit \<Longrightarrow>
     missing_count rs' col = missing_count rs col"
  by (induction rs rs' rule: list_all2_induct)
    (auto simp: missing_count_Cons missing_count_def pass_rel_isnull(2))

lemma map_of_missing_counts:
  "map_of (missing_counts cols rs) col =
     (if col \<in> set cols \<and> 0 < missing_count rs col then Some (missing_count rs col) else None)"
  by (induction cols) (auto simp: Let_def)

lemma recorded_missing_counts:
  "col \<in> set cols \<Longrightarrow> recorded (missing_counts cols rs) col = missing_count rs col"
  by (simp add: recorded_def map_of_missing_counts)

text \<open>The example frame, evaluated.\<close>

lemma classify_examples:
  "classify_industry_group (Str [36719, 20214, 24320, 21457]) = Inr keji_qiye"
  "classify_industry_group (Str [20892, 19994]) = Inr shangmao_lingshou"
  "classify_industry_group (Str [38134, 34892]) = Inr jinrongye"
  by (simp_all add: classify_industry_group_def keyword_defs)

lemma benchmark_examples:
  "employee_per_million_revenue (get_benchmark keji_qiye) = 12"
  "profit_margin (get_benchmark keji_qiye) = 18 / 100"
  "profit_margin (get_benchmark jinrongye) = 25 / 100"
  by (simp_all add: get_benchmark_def industry_benchmarks_def name_defs)

lemma estimate_examples:
  "estimate_employees (Finite 10000000) keji_qiye = Inr 120"
  "estimate_profit 10000000 keji_qiye = 1800000"
  "estimate_profit 1500000 jinrongye = 375000"
  by (simp_all add: estimate_employees_Finite estimate_profit_def benchmark_examples
        to_double_exact trunc_def)

lemma example_rows:
  "enhance_rows (rows example_frame) ([], []) =
     Inr (rows example_enhanced,
          ([EmployeeCount, NetProfit],
           [(EmployeeCount, method_benchmark), (NetProfit, method_margin)]))"
  by (simp add: example_frame_def example_enhanced_def enhance_row_def classify_examples
        estimate_examples note_field_def)

lemma example_missing:
  "missing_counts (columns example_frame) (rows example_frame) =
     [(Revenue, 1), (EmployeeCount, 2), (NetProfit, 2), (Other 0, 2)]"
  "missing_counts (columns example_frame) (rows example_enhanced) =
     [(Revenue, 1), (EmployeeCount, 1), (Other 0, 2)]"
  by (simp_all add: example_frame_def example_enhanced_def columns_def missing_count_def)

lemma example_update: "example_frame\<lparr>rows := rows example_enhanced\<rparr> = example_enhanced"
  by (simp add: example_frame_def example_enhanced_def)

lemma example_length: "length (rows example_enhanced) = 3"
  by (simp add: example_enhanced_def)

lemma example_run: "enhance_csv_data example_frame = Inr (example_enhanced, example_log)"
  by (simp add: example_length enhance_csv_data_def example_rows Let_def columns_rows_update example_missing
        example_update example_log_def)

text \<open>
  C3, at a row whose industry label is empty. \<^verbatim>\<open>read_csv\<close> delivers the empty field as
  the float NaN, \<^verbatim>\<open>row.get('industry_type', '')\<close> returns it (the default is for a missing
  column), and the first substring test of the classifier raises \<^verbatim>\<open>TypeError\<close>: the pass
  ends without filling the employee count of the row, whose revenue is present.
\<close>

theorem missing_label_raises: "enhance_csv_data no_label_frame = Inl TypeError"
  by (simp add: enhance_csv_data_def no_label_frame_def enhance_row_def
        classify_industry_group_def)



text \<open>
  C6. When the pass returns, then for every column of the frame the count recorded before
  the pass is the number of empty cells of the column in the frame read, and the count
  recorded after it is that number in the frame written (a column without empty cells has
  no entry, which stands for zero); the count after is at most the count before for
  \<open>employee_count\<close> and \<open>net_profit\<close>, and equal to it for every other column.
\<close>

theorem missing_accounting:
  assumes "enhance_csv_data df = Inr (df', lg)" and "col \<in> set (columns df)"
  shows "map_of (original_missing lg) col =
           (if 0 < missing_count (rows df) col then Some (missing_count (rows df) col) else None)
    \<and> map_of (final_missing lg) col =
           (if 0 < missing_count (rows df') col then Some (missing_count (rows df') col) else None)
    \<and> recorded (original_missing lg) col = missing_count (rows df) col
    \<and> recorded (final_missing lg) col = missing_count (rows df') col
    \<and> (if col = EmployeeCount \<or> col = NetProfit
        then recorded (final_missing lg) col \<le> recorded (original_missing lg) col
        else recorded (final_missing lg) col = recorded (original_missing lg) col)"
proof -
  from assms(1) obtain rs' fl where
    run: "enhance_rows (rows df) ([], []) = Inr (rs', fl)" and df': "df' = df\<lparr>rows := rs'\<rparr>"
    and orig: "original_missing lg = missing_counts (columns df) (rows df)"
    and fin: "final_missing lg = missing_counts (columns df) rs'"
    by (rule enhance_csv_data_Inr)
  from run have rel: "list_all2 pass_rel (rows df) rs'" by (rule enhance_rows_all2)
  have rs': "rows df' = rs'" by (simp add: df')
  have ro: "recorded (original_missing lg) col = missing_count (rows df) col"
    using assms(2) by (simp add: orig recorded_missing_counts)
  have rf: "recorded (final_missing lg) col = missing_count rs' col"
    using assms(2) by (simp add: fin recorded_missing_counts)
  have le: "missing_count rs' col \<le> missing_count (rows df) col"
    using rel by (rule missing_count_le)
  have eq: "missing_count rs' col = missing_count (rows df) col"
    if "col \<noteq> EmployeeCount" "col \<noteq> NetProfit"
    using rel that by (rule missing_count_eq)
  have mo: "map_of (original_missing lg) col =
      (if 0 < missing_count (rows df) col then Some (missing_count (rows df) col) else None)"
    using assms(2) by (simp add: orig map_of_missing_counts)
  have mf: "map_of (final_missing lg) col =
      (if 0 < missing_count rs' col then Some (missing_count rs' col) else None)"
    using assms(2) by (simp add: fin map_of_missing_counts)
  from mo mf ro rf le eq show ?thesis
    by (simp add: rs')
qed

theorem missing_accounting_witness:
  "enhance_csv_data example_frame = Inr (example_enhanced, example_log) \<and>
   EmployeeCount \<in> set (columns example_frame) \<and>
   map_of (original_missing example_log) EmployeeCount = Some 2 \<and>
   map_of (final_missing example_log) EmployeeCount = Some 1 \<and>
   missing_count (rows example_frame) EmployeeCount = 2 \<and>
   missing_count (rows example_enhanced) EmployeeCount = 1 \<and>
   recorded (final_missing example_log) EmployeeCount
     \<le> recorded (original_missing example_log) EmployeeCount"
proof -
  have col: "EmployeeCount \<in> set (columns example_frame)"
    by (simp add: columns_def)
  show ?thesis
    using missing_accounting [OF example_run col] example_run col
    by (simp add: example_log_def example_frame_def example_enhanced_def missing_count_def
          recorded_def)
qed

text \<open>
  C5. When the pass returns a frame, a second pass over that frame returns the same frame,
  so no cell changes; its log lists no enhanced field and no method, and its counts
  before and after are both the counts after the first pass.
\<close>

theorem enhance_twice:
  assumes "enhance_csv_data df = Inr (df1, log1)"
  shows "\<exists>log2. enhance_csv_data df1 = Inr (df1, log2) \<and> enhanced_fields log2 = []
           \<and> enhancement_methods log2 = [] \<and> fields_enhanced log2 = 0
           \<and> original_missing log2 = final_missing log1
           \<and> final_missing log2 = final_missing log1
           \<and> total_records log2 = total_records log1 \<and> missing_reduction log2 = 0"
proof -
  from assms obtain rs' fl where
    run: "enhance_rows (rows df) ([], []) = Inr (rs', fl)" and df1: "df1 = df\<lparr>rows := rs'\<rparr>"
    and fin: "final_missing log1 = missing_counts (columns df) rs'"
    and tot: "total_records log1 = length rs'"
    by (rule enhance_csv_data_Inr)
  from run have "list_all2 pass_rel (rows df) rs'" by (rule enhance_rows_all2)
  then have "enhance_rows rs' ([], []) = Inr (rs', ([], []))" by (rule enhance_rows_fix)
  then show ?thesis
    by (simp add: enhance_csv_data_def Let_def df1 fin tot columns_rows_update)
qed

theorem enhance_twice_witness:
  "enhance_csv_data example_frame = Inr (example_enhanced, example_log) \<and>
   enhance_csv_data example_enhanced =
     Inr (example_enhanced,
          \<lparr>original_missing = [(Revenue, 1), (EmployeeCount, 1), (Other 0, 2)],
           enhanced_fields = [],
           enhancement_methods = [],
           final_missing = [(Revenue, 1), (EmployeeCount, 1), (Other 0, 2)],
           total_records = 3,
           fields_enhanced = 0,
           missing_reduction = 0\<rparr>)"
proof -
  from enhance_twice [OF example_run] obtain log2 where
    run2: "enhance_csv_data example_enhanced = Inr (example_enhanced, log2)" and
    log2: "enhanced_fields log2 = []" "enhancement_methods log2 = []" "fields_enhanced log2 = 0"
      "original_missing log2 = final_missing example_log"
      "final_missing log2 = final_missing example_log"
      "total_records log2 = total_records example_log" "missing_reduction log2 = 0"
    by blast
  from log2 have "log2 =
      \<lparr>original_missing = [(Revenue, 1), (EmployeeCount, 1), (Other 0, 2)],
       enhanced_fields = [], enhancement_methods = [],
       final_missing = [(Revenue, 1), (EmployeeCount, 1), (Other 0, 2)],
       total_records = 3, fields_enhanced = 0, missing_reduction = 0\<rparr>"
    by (cases log2) (simp add: example_log_def)
  with run2 example_run show ?thesis by simp
qed

end
